theory Spec2Isabelle
  imports Complex_Main "HOL-Library.Product_Lexorder"
begin

section \<open>Text model\<close>

text \<open>
  Python strings are modelled as HOL strings read as Latin-1: every character is one code
  point below 256, so \<open>length\<close> is Python's \<open>len\<close>.  Numbers that are Python floats
  (font sizes, scores, similarities, thresholds) are modelled as reals: comparisons and
  arithmetic are exact.

  \<open>py_isspace\<close> is the whitespace class shared by \<open>str.split()\<close>, \<open>str.strip()\<close> and
  the \<open>\s\<close> of a str pattern, restricted to code points below 256.
\<close>

definition py_isspace :: "char \<Rightarrow> bool" where
  "py_isspace c = (let n = (of_char c :: nat) in
     (9 \<le> n \<and> n \<le> 13) \<or> (28 \<le> n \<and> n \<le> 32) \<or> n = 133 \<or> n = 160)"

definition py_lower_char :: "char \<Rightarrow> char" where
  "py_lower_char c = (let n = (of_char c :: nat) in
     if (65 \<le> n \<and> n \<le> 90) \<or> (192 \<le> n \<and> n \<le> 222 \<and> n \<noteq> 215)
     then char_of (n + 32) else c)"

definition py_lower :: "string \<Rightarrow> string" where
  "py_lower s = map py_lower_char s"

text \<open>\<open>str.split()\<close> without argument: maximal runs of non-whitespace characters.\<close>

fun split_ws :: "string \<Rightarrow> string \<Rightarrow> string list" where
  "split_ws w [] = (if w = [] then [] else [w])"
| "split_ws w (c # cs) =
     (if py_isspace c then (if w = [] then split_ws [] cs else w # split_ws [] cs)
      else split_ws (w @ [c]) cs)"

definition py_split :: "string \<Rightarrow> string list" where
  "py_split s = split_ws [] s"

definition py_strip :: "string \<Rightarrow> string" where
  "py_strip s = rev (dropWhile py_isspace (rev (dropWhile py_isspace s)))"

text \<open>\<open>sep.join(xs)\<close>.\<close>

fun py_join :: "string \<Rightarrow> string list \<Rightarrow> string" where
  "py_join sep [] = []"
| "py_join sep [x] = x"
| "py_join sep (x # y # ys) = x @ sep @ py_join sep (y # ys)"

section \<open>Sections\<close>

text \<open>
  A section dict.  \<open>extract_sections\<close> creates it with title, text and page number, and with
  a level on the heading path only; \<open>main\<close> adds the document; \<open>rank_sections\<close> adds the
  score, the snippet and the keys \<open>_mmr\<close> and \<open>_ce\<close>.  A key that may be absent is an
  option.
\<close>

record sec =
  sec_title :: string
  sec_text :: string
  sec_page_number :: int
  sec_level :: "string option"
  sec_document :: "string option"
  sec_score :: "real option"
  sec_snippet :: "string option"
  sec_mmr :: "real option"
  sec_ce :: "real option"

text \<open>The dict as \<open>extract_sections\<close> builds it: the other keys are absent.\<close>

definition new_section :: "string \<Rightarrow> string \<Rightarrow> int \<Rightarrow> string option \<Rightarrow> sec" where
  "new_section t b p l =
     \<lparr>sec_title = t, sec_text = b, sec_page_number = p, sec_level = l,
      sec_document = None, sec_score = None, sec_snippet = None, sec_mmr = None,
      sec_ce = None\<rparr>"

section \<open>Floats and errors\<close>

text \<open>
  A Python float is an IEEE double.  \<open>round_double x\<close> is the double nearest to the real
  \<open>x\<close>, ties to even, the result of every float operation on the exact result \<open>x\<close>:
  \<open>normalise\<close> scales the magnitude into \<open>[2^52, 2^53)\<close> (or stops at the least unit
  \<open>2^-1074\<close> of the subnormal range) and the scaled magnitude is rounded to an integer.
  The fuel covers every exponent of the double range.  A result of magnitude \<open>2^1024\<close>
  or more is an overflow; the only place of the model where it can arise is the conversion
  of an integer, where Python raises OverflowError.
\<close>

datatype py_error = IndexError | ValueError | OverflowError

definition round_half_even :: "real \<Rightarrow> int" where
  "round_half_even y =
     (let f = \<lfloor>y\<rfloor>; d = y - of_int f
      in if d < 1 / 2 then f else if 1 / 2 < d then f + 1
         else if even f then f else f + 1)"

fun normalise :: "nat \<Rightarrow> real \<Rightarrow> real \<Rightarrow> real \<times> real" where
  "normalise 0 m u = (m, u)"
| "normalise (Suc fuel) m u =
     (if m < 2 ^ 52 \<and> 1 / 2 ^ 1074 < u then normalise fuel (2 * m) (u / 2)
      else if 2 ^ 53 \<le> m then normalise fuel (m / 2) (2 * u)
      else (m, u))"

definition round_double :: "real \<Rightarrow> real" where
  "round_double x =
     (if x = 0 then 0
      else case normalise 2200 \<bar>x\<bar> 1 of
             (m, u) \<Rightarrow> sgn x * of_int (round_half_even m) * u)"

text \<open>\<open>float(n)\<close> for an integer \<open>n\<close>, as in \<open>1.0 / n\<close>.\<close>

definition float_of_int :: "int \<Rightarrow> py_error + real" where
  "float_of_int n =
     (let r = round_double (of_int n)
      in if 2 ^ 1024 \<le> \<bar>r\<bar> then Inl OverflowError else Inr r)"

section \<open>Cross-document deduplication (1b/src/main.py)\<close>

text \<open>
  \<open>_normalize_text_for_hash\<close>: lowercase, replace every character outside
  \<open>[a-z0-9\s]\<close> by a space, split on whitespace, keep the tokens of length at least 3.
\<close>

definition is_lower_alnum :: "char \<Rightarrow> bool" where
  "is_lower_alnum c = (let n = (of_char c :: nat) in
     (97 \<le> n \<and> n \<le> 122) \<or> (48 \<le> n \<and> n \<le> 57))"



text \<open>
  \<open>_section_quality\<close>; a missing level reads as H3.  The constants 0.8, 0.6, 0.4 and
  0.1 are the doubles nearest to these decimals, and every operation rounds, in the
  order of the source: \<open>(level_score * 0.5 + min(length, 4000) / 4000 * 0.4)
  + early_page_bonus * 0.1\<close>.  The conversion of the page number in
  \<open>1.0 / max(1, page_number)\<close> is the only step that can raise.
\<close>

definition level_score :: "string option \<Rightarrow> real" where
  "level_score l =
     (let level = (case l of None \<Rightarrow> ''H3'' | Some x \<Rightarrow> x)
      in if level = ''H1'' then 1
         else if level = ''H2'' then round_double (8 / 10) else round_double (6 / 10))"

definition quality_value :: "real \<Rightarrow> int \<Rightarrow> real \<Rightarrow> real" where
  "quality_value ls len early_page_bonus =
     round_double
       (round_double
          (round_double (ls * (1 / 2))
           + round_double (round_double (real_of_int (min len 4000) / 4000)
                           * round_double (4 / 10)))
        + round_double (early_page_bonus * round_double (1 / 10)))"

definition section_quality :: "sec \<Rightarrow> py_error + real" where
  "section_quality s =
     (case float_of_int (max 1 (sec_page_number s)) of
        Inl e \<Rightarrow> Inl e
      | Inr p \<Rightarrow>
          Inr (quality_value (level_score (sec_level s)) (int (length (sec_text s)))
                 (round_double (1 / p))))"





section \<open>Documents, headings and outlines\<close>

text \<open>
  The PDF library is an external collaborator.  An opened document is the list of its
  pages; a page gives its raw text (\<open>get_text()\<close>), its height and its layout blocks
  (\<open>get_text("dict")\<close>).  A block without the key \<open>lines\<close> is an image block; a text
  block is a list of lines, each a list of spans.  A span's bounding box is
  \<open>(x0, y0, x1, y1)\<close>.
\<close>

record span =
  span_text :: string
  span_size :: real
  span_flags :: nat
  span_bbox :: "real \<times> real \<times> real \<times> real"

datatype block = Image_block | Text_block "span list list"

record page =
  page_text :: string
  page_height :: real
  page_blocks :: "block list"

type_synonym document = "page list"

text \<open>
  \<open>doc[p]\<close>: the library raises IndexError for an index at or beyond the page count and
  counts a negative index from the end, wrapping around.
\<close>

definition doc_getitem :: "document \<Rightarrow> int \<Rightarrow> py_error + page" where
  "doc_getitem doc p =
     (let n = int (length doc)
      in if n \<le> p \<or> n = 0 then Inl IndexError else Inr (doc ! nat (p mod n)))"

text \<open>A float that may be \<open>float('inf')\<close>, the start value of a running minimum.\<close>

datatype pyfloat = Fin real | PInf

fun fl_min :: "pyfloat \<Rightarrow> real \<Rightarrow> pyfloat" where
  "fl_min PInf x = Fin x"
| "fl_min (Fin a) x = Fin (min a x)"

fun fl_less :: "pyfloat \<Rightarrow> real \<Rightarrow> bool" where
  "fl_less PInf x = False"
| "fl_less (Fin a) x = (a < x)"

text \<open>
  A heading dict and an outline dict as \<open>extract_outline\<close> builds them: every key is
  present, so the defaults of the \<open>.get\<close> calls that read them are never used.
\<close>

record heading =
  h_title :: string
  h_page_number :: int
  h_font_size :: real
  h_bold :: bool
  h_level :: string
  h_indent :: pyfloat

record outline =
  o_title :: string
  o_headings :: "heading list"

section \<open>Section extraction (1b/src/section\_extractor.py)\<close>

text \<open>
  \<open>extract_sections\<close> on an opened document.  Two helpers that the properties below do
  not depend on are parameters: \<open>is_clean_title\<close> (which can raise IndexError, at
  \<open>title[3]\<close> on a three-digit title) and \<open>_clean_page_text\<close>.

  \<open>pages_text doc ps\<close> is the loop \<open>for p in ps: section_text += doc[p].get_text()\<close>.
\<close>

fun pages_text :: "document \<Rightarrow> int list \<Rightarrow> py_error + string" where
  "pages_text doc [] = Inr []"
| "pages_text doc (p # ps) =
     (case doc_getitem doc p of
        Inl e \<Rightarrow> Inl e
      | Inr pg \<Rightarrow> (case pages_text doc ps of
                    Inl e \<Rightarrow> Inl e
                  | Inr t \<Rightarrow> Inr (page_text pg @ t)))"

text \<open>
  The end of one round of the loop over the headings: clean the text, cut it at 5000
  characters, build the dict.
\<close>

definition finish_section :: "(string \<Rightarrow> string) \<Rightarrow> heading \<Rightarrow> string \<Rightarrow> sec" where
  "finish_section clean_page_text h section_text =
     (let cleaned = clean_page_text section_text;
          capped = (if 5000 < length cleaned then take 5000 cleaned else cleaned)
      in new_section (h_title h) (py_strip capped) (h_page_number h) (Some (h_level h)))"

text \<open>
  One round of the loop over the sorted headings: \<open>next_heading\<close> is
  \<open>headings[idx + 1]\<close> when there is one.  The result \<open>None\<close> is the \<open>continue\<close>.
\<close>

definition section_of_heading ::
  "(string \<Rightarrow> py_error + bool) \<Rightarrow> (string \<Rightarrow> string) \<Rightarrow> document \<Rightarrow> heading
     \<Rightarrow> heading option \<Rightarrow> py_error + sec option" where
  "section_of_heading is_clean_title clean_page_text doc h next_heading =
     (case is_clean_title (h_title h) of
        Inl e \<Rightarrow> Inl e
      | Inr False \<Rightarrow> Inr None
      | Inr True \<Rightarrow>
          (let start_page = h_page_number h - 1;
               next_page = (case next_heading of
                              Some h' \<Rightarrow> h_page_number h' - 1
                            | None \<Rightarrow> int (length doc));
               max_span = (if h_level h = ''H1'' then 3
                           else if h_level h = ''H2'' then 2 else (2::int));
               tentative_end = min (int (length doc)) (start_page + max_span);
               end_page = min next_page tentative_end
           in case pages_text doc [start_page..end_page - 1] of
                Inl e \<Rightarrow> Inl e
              | Inr section_text \<Rightarrow>
                  (case (if py_strip section_text = []
                         then (case doc_getitem doc start_page of
                                 Inl e \<Rightarrow> Inl e
                               | Inr pg \<Rightarrow> Inr (page_text pg))
                         else Inr section_text) of
                     Inl e \<Rightarrow> Inl e
                   | Inr section_text \<Rightarrow>
                       Inr (Some (finish_section clean_page_text h section_text)))))"

fun sections_loop ::
  "(string \<Rightarrow> py_error + bool) \<Rightarrow> (string \<Rightarrow> string) \<Rightarrow> document \<Rightarrow> heading list
     \<Rightarrow> py_error + sec list" where
  "sections_loop is_clean_title clean_page_text doc [] = Inr []"
| "sections_loop is_clean_title clean_page_text doc (h # hs) =
     (case section_of_heading is_clean_title clean_page_text doc h
             (case hs of [] \<Rightarrow> None | h' # _ \<Rightarrow> Some h') of
        Inl e \<Rightarrow> Inl e
      | Inr r \<Rightarrow>
          (case sections_loop is_clean_title clean_page_text doc hs of
             Inl e \<Rightarrow> Inl e
           | Inr ss \<Rightarrow> Inr ((case r of None \<Rightarrow> [] | Some s \<Rightarrow> [s]) @ ss)))"

definition extract_sections ::
  "(string \<Rightarrow> py_error + bool) \<Rightarrow> (string \<Rightarrow> string) \<Rightarrow> document \<Rightarrow> outline
     \<Rightarrow> py_error + sec list" where
  "extract_sections is_clean_title clean_page_text doc ol =
     (if o_headings ol = []
      then Inr [new_section (if o_title ol = [] then ''Document'' else o_title ol)
                  (concat (map page_text (take 3 doc))) 1 None]
      else sections_loop is_clean_title clean_page_text doc
             (sort_key (\<lambda>h. (h_page_number h, - h_font_size h)) (o_headings ol)))"

text \<open>Instances of the two parameters for worked examples: every title passes, nothing is cleaned.\<close>

definition every_title_clean :: "string \<Rightarrow> py_error + bool" where
  "every_title_clean t = Inr True"

definition nothing_cleaned :: "string \<Rightarrow> string" where
  "nothing_cleaned t = t"

section \<open>Snippet selection (1b/src/ranker.py)\<close>

text \<open>
  The word class \<open>\w\<close> of a str pattern on code points below 256: digits, letters,
  the underscore, and the Latin-1 letters and numeric signs.
\<close>

definition py_isword :: "char \<Rightarrow> bool" where
  "py_isword c = (let n = (of_char c :: nat) in
     (48 \<le> n \<and> n \<le> 57) \<or> (65 \<le> n \<and> n \<le> 90) \<or> n = 95 \<or> (97 \<le> n \<and> n \<le> 122)
     \<or> n = 170 \<or> n = 178 \<or> n = 179 \<or> n = 181 \<or> n = 185 \<or> n = 186
     \<or> (188 \<le> n \<and> n \<le> 190) \<or> (192 \<le> n \<and> n \<le> 214) \<or> (216 \<le> n \<and> n \<le> 246)
     \<or> (248 \<le> n \<and> n \<le> 255))"

text \<open>
  \<open>re.sub(r"(\w)-\n(\w)", r"\1\2", t)\<close>: scanning from the left, a word character, a
  hyphen, a newline and a word character become the two word characters, and the scan
  goes on after the second one.
\<close>

fun dehyphenate :: "string \<Rightarrow> string" where
  "dehyphenate (a # h # n # b # rest) =
     (if py_isword a \<and> h = CHR ''-'' \<and> n = CHR 0x0A \<and> py_isword b
      then a # b # dehyphenate rest
      else a # dehyphenate (h # n # b # rest))"
| "dehyphenate s = s"

text \<open>
  \<open>re.sub(r"[...]+", " ", t)\<close> for a character class \<open>P\<close>: every maximal run of
  characters of the class becomes one space.  The flag says that the scan is inside a run.
\<close>

fun squeeze :: "(char \<Rightarrow> bool) \<Rightarrow> bool \<Rightarrow> string \<Rightarrow> string" where
  "squeeze P in_run [] = []"
| "squeeze P in_run (c # cs) =
     (if P c then (if in_run then squeeze P True cs else CHR '' '' # squeeze P True cs)
      else c # squeeze P False cs)"

text \<open>
  \<open>normalize_text\<close>.  Of the bullet class \<open>[\<bullet>\<cdot>\<bullet>]\<close> only the middle dot U+00B7 is a
  code point below 256.
\<close>

definition is_bullet :: "char \<Rightarrow> bool" where
  "is_bullet c = (c = CHR 0xB7)"

definition normalize_text :: "string \<Rightarrow> string" where
  "normalize_text text =
     (if text = [] then []
      else let t = dehyphenate text;
               t = map (\<lambda>c. if c = CHR 0x0D then CHR '' '' else c) t;
               t = map (\<lambda>c. if c = CHR 0x0A then CHR '' '' else c) t;
               t = squeeze is_bullet False t;
               t = squeeze (\<lambda>c. c = CHR 0x09) False t;
               t = squeeze py_isspace False t
           in py_lower (py_strip t))"

text \<open>\<open>tokenize_words\<close>: the maximal runs of \<open>[a-z0-9]\<close> of length at least 2.\<close>

fun alnum_runs :: "string \<Rightarrow> string \<Rightarrow> string list" where
  "alnum_runs cur [] = (if 2 \<le> length cur then [cur] else [])"
| "alnum_runs cur (c # cs) =
     (if is_lower_alnum c then alnum_runs (cur @ [c]) cs
      else if 2 \<le> length cur then cur # alnum_runs [] cs
      else alnum_runs [] cs)"

definition tokenize_words :: "string \<Rightarrow> string list" where
  "tokenize_words text = (if text = [] then [] else alnum_runs [] (py_lower text))"

definition build_bigrams :: "'a list \<Rightarrow> ('a \<times> 'a) list" where
  "build_bigrams terms = zip terms (tl terms)"

text \<open>
  \<open>re.split(r"(?<=[\.!?])\s+", s)\<close>: a separator is a maximal run of whitespace that
  follows a full stop, an exclamation mark or a question mark.  \<open>cur\<close> is the part being
  read, \<open>in_sep\<close> says that the scan is inside a separator.
\<close>

definition is_terminal :: "char \<Rightarrow> bool" where
  "is_terminal c = (c = CHR ''.'' \<or> c = CHR ''!'' \<or> c = CHR ''?'')"

fun sentence_parts :: "string \<Rightarrow> bool \<Rightarrow> string \<Rightarrow> string list" where
  "sentence_parts cur in_sep [] = [cur]"
| "sentence_parts cur in_sep (c # cs) =
     (if in_sep \<and> py_isspace c then sentence_parts cur True cs
      else if py_isspace c \<and> cur \<noteq> [] \<and> is_terminal (last cur)
           then cur # sentence_parts [] True cs
      else sentence_parts (cur @ [c]) False cs)"

definition sentence_split :: "string \<Rightarrow> string list" where
  "sentence_split text =
     (if text = [] then []
      else filter (\<lambda>p. 0 < length p)
             (map py_strip (sentence_parts [] False (py_strip text))))"

text \<open>\<open>xs[:m]\<close> for an integer \<open>m\<close>: a negative \<open>m\<close> counts from the end.\<close>

definition py_prefix :: "'a list \<Rightarrow> int \<Rightarrow> 'a list" where
  "py_prefix xs m = (if 0 \<le> m then take (nat m) xs else take (length xs - nat (- m)) xs)"

text \<open>
  \<open>max(range(n), key=f)\<close> for \<open>n > 0\<close>: the first index at which \<open>f\<close> is greatest.
\<close>

definition first_argmax :: "(nat \<Rightarrow> real) \<Rightarrow> nat \<Rightarrow> nat" where
  "first_argmax f n = fold (\<lambda>i best. if f best < f i then i else best) [1..<n] 0"

definition sent_score :: "string list \<Rightarrow> string \<Rightarrow> real" where
  "sent_score q_terms s =
     (let q_bigrams = build_bigrams q_terms;
          tokens = tokenize_words s;
          unigram_hits = length (filter (\<lambda>t. t \<in> set tokens) q_terms);
          bigram_hits = (if 1 < length tokens \<and> q_bigrams \<noteq> []
                         then length (filter (\<lambda>b. b \<in> set (build_bigrams tokens)) q_bigrams)
                         else 0)
      in real unigram_hits + 2 * real bigram_hits)"

definition select_snippet :: "string \<Rightarrow> string list \<Rightarrow> int \<Rightarrow> string" where
  "select_snippet original_text query_terms max_tokens =
     (let sentences = sentence_split (normalize_text original_text)
      in if sentences = [] then take 600 original_text
         else let q_terms = filter (\<lambda>t. 2 < length t) query_terms;
                  best_idx = first_argmax (\<lambda>i. sent_score q_terms (sentences ! i))
                               (length sentences);
                  start = best_idx - 1;
                  end = min (length sentences) (best_idx + 2);
                  snippet = py_join '' '' (take (end - start) (drop start sentences));
                  tokens = py_split snippet;
                  tokens = (if max_tokens < int (length tokens)
                            then py_prefix tokens max_tokens else tokens)
              in py_join '' '' tokens)"

section \<open>Ranking (1b/src/ranker.py)\<close>

text \<open>
  \<open>rank_sections\<close> from the point where every section dict has its combined score.  The
  collaborators are parameters:
  \<^item> \<open>combined idx\<close> is the value that the scoring loop stores under \<open>score\<close> in the
    section at index \<open>idx\<close> (it depends on the embedding model and on BM25);
  \<^item> \<open>ranks_cross\<close> is the cross-encoder, absent (\<open>None\<close>) or a \<open>predict\<close> function
    that returns one score per pair or raises (\<open>None\<close>);
  \<^item> \<open>diversity\<close> is the value read from the environment (0.3 by default);
  \<^item> \<open>sim i j\<close> is the cosine similarity of the embeddings of the candidates at the
    positions \<open>i\<close> and \<open>j\<close> of \<open>ordered\<close>.

  The dicts are mutated in place; the model takes the dicts at different list positions
  to be different objects, so a list of records stands for the list of dicts.  The
  section list is not empty: \<open>main\<close> calls \<open>rank_sections\<close> only then, and what the
  scoring stage does on an empty list is outside the model.

  \<open>x['score']\<close>: every dict that reaches these lines has the key, the scoring loop
  stored it; the value 0 for a missing key is never read inside \<open>rank_sections\<close>.
\<close>

definition score_value :: "sec \<Rightarrow> real" where
  "score_value x = (case sec_score x of Some v \<Rightarrow> v | None \<Rightarrow> 0)"

text \<open>\<open>x.get('_mmr', x['score'])\<close> and \<open>x.get('_ce', 0.0)\<close>.\<close>

definition retained :: "sec \<Rightarrow> real" where
  "retained x = (case sec_mmr x of Some m \<Rightarrow> m | None \<Rightarrow> score_value x)"

definition ce_value :: "sec \<Rightarrow> real" where
  "ce_value x = (case sec_ce x of Some v \<Rightarrow> v | None \<Rightarrow> 0)"

text \<open>\<open>min(range(n), key=f)\<close> for \<open>n > 0\<close>: the first index at which \<open>f\<close> is least.\<close>

definition first_argmin :: "(nat \<Rightarrow> real) \<Rightarrow> nat \<Rightarrow> nat" where
  "first_argmin f n = fold (\<lambda>j best. if f j < f best then j else best) [1..<n] 0"

text \<open>\<open>max(xs)\<close> of a non-empty list.\<close>

definition py_max :: "real list \<Rightarrow> real" where
  "py_max xs = fold max (tl xs) (hd xs)"

text \<open>
  The cross-encoder stage.  The scores are zipped with the pool, so a short answer leaves
  the rest of the pool without \<open>_ce\<close>.  A stable sort with \<open>reverse=True\<close> keeps the
  order of equal keys; it is the stable ascending sort by the negated key.
\<close>

definition ce_stage ::
  "((string \<times> string) list \<Rightarrow> real list option) option \<Rightarrow> string \<Rightarrow> string \<Rightarrow> int
     \<Rightarrow> sec list \<Rightarrow> sec list" where
  "ce_stage ranks_cross persona job top_n ordered =
     (case ranks_cross of
        None \<Rightarrow> ordered
      | Some predict \<Rightarrow>
          if ordered = [] then ordered
          else let top_pool = take (nat (min (int (length ordered)) (max 10 (top_n * 3))))
                                ordered;
                   pairs = map (\<lambda>s. (persona @ '' '' @ job,
                                      sec_title s @ ''. '' @ normalize_text (sec_text s)))
                             top_pool
               in case predict pairs of
                    None \<Rightarrow> ordered
                  | Some ce_scores \<Rightarrow>
                      (let scored_pool =
                             map (\<lambda>(sc, s). s\<lparr>sec_ce := Some sc\<rparr>) (zip ce_scores top_pool)
                             @ drop (length ce_scores) top_pool
                       in sort_key (\<lambda>x. (- ce_value x, - score_value x)) scored_pool
                          @ drop (length top_pool) ordered))"

text \<open>
  The selection loop over \<open>enumerate(ordered)\<close>.  With \<open>top_n \<le> 0\<close> nothing is ever
  selected and the first candidate raises ValueError at \<open>min(range(0), ...)\<close>.
\<close>

fun mmr_loop ::
  "int \<Rightarrow> real \<Rightarrow> (nat \<Rightarrow> nat \<Rightarrow> real) \<Rightarrow> (nat \<times> sec) list \<Rightarrow> sec list \<Rightarrow> nat list
     \<Rightarrow> py_error + sec list" where
  "mmr_loop top_n diversity sim [] selected selected_idx = Inr selected"
| "mmr_loop top_n diversity sim ((i, candidate) # rest) selected selected_idx =
     (if int (length selected) < top_n
      then mmr_loop top_n diversity sim rest (selected @ [candidate]) (selected_idx @ [i])
      else let sim_to_selected = (if selected_idx = [] then 0
                                  else py_max (map (sim i) selected_idx));
               mmr_score = score_value candidate - diversity * sim_to_selected
           in if selected = [] then Inl ValueError
              else let worst_idx = first_argmin (\<lambda>j. retained (selected ! j)) (length selected);
                       worst_mmr = retained (selected ! worst_idx)
                   in if worst_mmr < mmr_score
                      then mmr_loop top_n diversity sim rest
                             (selected[worst_idx := candidate\<lparr>sec_mmr := Some mmr_score\<rparr>])
                             (selected_idx[worst_idx := i])
                      else mmr_loop top_n diversity sim rest selected selected_idx)"

text \<open>The end of \<open>rank_sections\<close>: attach the snippet, delete \<open>_mmr\<close>.\<close>

definition finish_ranked :: "string \<Rightarrow> string \<Rightarrow> sec \<Rightarrow> sec" where
  "finish_ranked persona job r =
     r\<lparr>sec_snippet := Some (select_snippet (sec_text r)
                              (tokenize_words (persona @ '' '' @ job)) 150),
       sec_mmr := None\<rparr>"

text \<open>The effect of the scoring loop: \<open>s['score'] = ...\<close> for every section.\<close>

definition assign_scores :: "(nat \<Rightarrow> real) \<Rightarrow> sec list \<Rightarrow> sec list" where
  "assign_scores combined sections =
     map (\<lambda>(idx, s). s\<lparr>sec_score := Some (combined idx)\<rparr>) (enumerate 0 sections)"

definition rank_sections ::
  "(nat \<Rightarrow> real) \<Rightarrow> ((string \<times> string) list \<Rightarrow> real list option) option \<Rightarrow> real
     \<Rightarrow> (nat \<Rightarrow> nat \<Rightarrow> real) \<Rightarrow> sec list \<Rightarrow> string \<Rightarrow> string \<Rightarrow> int
     \<Rightarrow> py_error + sec list" where
  "rank_sections combined ranks_cross diversity sim sections persona job top_n =
     (let scored = assign_scores combined sections;
          ordered = sort_key (\<lambda>x. - score_value x) scored;
          ordered = ce_stage ranks_cross persona job top_n ordered
      in case mmr_loop top_n diversity sim (enumerate 0 ordered) [] [] of
           Inl e \<Rightarrow> Inl e
         | Inr selected \<Rightarrow>
             Inr (map (finish_ranked persona job)
                    (py_prefix (sort_key (\<lambda>x. - retained x) selected) top_n)))"


text \<open>
  Collaborators for worked examples: a cross-encoder that answers with a fixed list of
  scores, and embeddings whose pairwise similarity is one fixed value.
\<close>

definition fixed_reranker :: "real list \<Rightarrow> (string \<times> string) list \<Rightarrow> real list option" where
  "fixed_reranker answers pairs = Some answers"

definition constant_similarity :: "real \<Rightarrow> nat \<Rightarrow> nat \<Rightarrow> real" where
  "constant_similarity v i j = v"

section \<open>Outline extraction (1b/src/outline\_extractor.py)\<close>

text \<open>
  Character classes of \<open>str.isalpha\<close>, \<open>str.isupper\<close> and \<open>\d\<close> on code points
  below 256.  \<open>s.isupper()\<close> holds when \<open>s\<close> has a cased character and no lowercase
  one.
\<close>

definition py_isalpha :: "char \<Rightarrow> bool" where
  "py_isalpha c = (let n = (of_char c :: nat) in
     (65 \<le> n \<and> n \<le> 90) \<or> (97 \<le> n \<and> n \<le> 122) \<or> n = 170 \<or> n = 181 \<or> n = 186
     \<or> (192 \<le> n \<and> n \<le> 214) \<or> (216 \<le> n \<and> n \<le> 246) \<or> (248 \<le> n \<and> n \<le> 255))"

definition is_upper_char :: "char \<Rightarrow> bool" where
  "is_upper_char c = (let n = (of_char c :: nat) in
     (65 \<le> n \<and> n \<le> 90) \<or> (192 \<le> n \<and> n \<le> 214) \<or> (216 \<le> n \<and> n \<le> 222))"

definition is_lower_char :: "char \<Rightarrow> bool" where
  "is_lower_char c = (let n = (of_char c :: nat) in
     (97 \<le> n \<and> n \<le> 122) \<or> n = 170 \<or> n = 181 \<or> n = 186
     \<or> (223 \<le> n \<and> n \<le> 246) \<or> (248 \<le> n \<and> n \<le> 255))"

definition py_isupper :: "string \<Rightarrow> bool" where
  "py_isupper s = (list_ex is_upper_char s \<and> list_all (\<lambda>c. \<not> is_lower_char c) s)"

definition is_digit_char :: "char \<Rightarrow> bool" where
  "is_digit_char c = (let n = (of_char c :: nat) in 48 \<le> n \<and> n \<le> 57)"

text \<open>\<open>sub in s\<close> and \<open>s.startswith(sub)\<close>.\<close>

definition starts_with :: "string \<Rightarrow> string \<Rightarrow> bool" where
  "starts_with sub s = (take (length sub) s = sub)"

fun is_substring :: "string \<Rightarrow> string \<Rightarrow> bool" where
  "is_substring sub [] = (sub = [])"
| "is_substring sub (c # cs) = (starts_with sub (c # cs) \<or> is_substring sub cs)"

text \<open>
  \<open>re.match(r"^\d+(\.|:)\s", t)\<close>: digits, then a full stop or a colon, then a
  whitespace character.
\<close>

definition numbered :: "string \<Rightarrow> bool" where
  "numbered t =
     (takeWhile is_digit_char t \<noteq> []
      \<and> (case dropWhile is_digit_char t of
            c # w # rest \<Rightarrow> (c = CHR ''.'' \<or> c = CHR '':'') \<and> py_isspace w
          | _ \<Rightarrow> False))"

text \<open>
  The scan of one text block: the loops over its lines and their spans.  The title scan
  reads the text, the size, the boldness and the least \<open>bbox[1]\<close>; the heading scan
  reads all six values.
\<close>

record block_stats =
  bs_text :: string
  bs_max_size :: real
  bs_is_bold :: bool
  bs_min_indent :: pyfloat
  bs_min_y :: pyfloat
  bs_max_y :: real

definition scan_span :: "span \<Rightarrow> block_stats \<Rightarrow> block_stats" where
  "scan_span sp st =
     (case span_bbox sp of (x0, y0, x1, y1) \<Rightarrow>
        \<lparr>bs_text = bs_text st @ span_text sp,
         bs_max_size = max (bs_max_size st) (span_size sp),
         bs_is_bold = (if (span_flags sp div 16) mod 2 = 1 then True else bs_is_bold st),
         bs_min_indent = fl_min (bs_min_indent st) x0,
         bs_min_y = fl_min (bs_min_y st) y0,
         bs_max_y = max (bs_max_y st) y1\<rparr>)"

definition scan_block :: "span list list \<Rightarrow> block_stats" where
  "scan_block lines =
     fold scan_span (concat lines)
       \<lparr>bs_text = [], bs_max_size = 0, bs_is_bold = False, bs_min_indent = PInf,
        bs_min_y = PInf, bs_max_y = 0\<rparr>"

text \<open>
  The title: among the blocks of the first page with a text of 11 to 199 characters, the
  first one that is greatest for the key \<open>(bold, size, -position)\<close>.
\<close>

record title_candidate =
  tc_text :: string
  tc_size :: real
  tc_bold :: bool
  tc_position :: pyfloat

fun fl_lt :: "pyfloat \<Rightarrow> pyfloat \<Rightarrow> bool" where
  "fl_lt (Fin a) (Fin b) = (a < b)"
| "fl_lt (Fin a) PInf = True"
| "fl_lt PInf b = False"

definition title_key_less :: "title_candidate \<Rightarrow> title_candidate \<Rightarrow> bool" where
  "title_key_less a b =
     (tc_bold a < tc_bold b
      \<or> (tc_bold a = tc_bold b
          \<and> (tc_size a < tc_size b
              \<or> (tc_size a = tc_size b \<and> fl_lt (tc_position b) (tc_position a)))))"

definition title_candidate_of :: "block \<Rightarrow> title_candidate option" where
  "title_candidate_of b =
     (case b of
        Image_block \<Rightarrow> None
      | Text_block lines \<Rightarrow>
          (let st = scan_block lines; block_text = py_strip (bs_text st)
           in if 10 < length block_text \<and> length block_text < 200
              then Some \<lparr>tc_text = block_text, tc_size = bs_max_size st,
                         tc_bold = bs_is_bold st, tc_position = bs_min_y st\<rparr>
              else None))"

definition select_title :: "title_candidate list \<Rightarrow> string" where
  "select_title title_candidates =
     (case title_candidates of
        [] \<Rightarrow> []
      | c # cs \<Rightarrow> tc_text (fold (\<lambda>x best. if title_key_less best x then x else best) cs c))"

text \<open>
  The body font size.  The sizes of the spans of the first two pages are added to a set;
  \<open>iter_order\<close> gives the order in which the set built from a sequence of insertions is
  iterated (it depends on the hashes).  \<open>round(s, 1)\<close> rounds half to even.
  \<open>Counter(xs).most_common(1)[0][0]\<close> is the first value, in order of first occurrence,
  whose count is greatest.
\<close>

definition py_round1 :: "real \<Rightarrow> real" where
  "py_round1 x =
     (let y = x * 10; f = \<lfloor>y\<rfloor>; d = y - of_int f
      in if d < 1 / 2 then of_int f / 10
         else if 1 / 2 < d then of_int (f + 1) / 10
         else of_int (if even f then f else f + 1) / 10)"

definition most_common1 :: "real list \<Rightarrow> real" where
  "most_common1 xs =
     fold (\<lambda>y best. if count_list xs best < count_list xs y then y else best) (tl xs) (hd xs)"

definition block_sizes :: "block \<Rightarrow> real list" where
  "block_sizes b =
     (case b of Image_block \<Rightarrow> [] | Text_block lines \<Rightarrow> map span_size (concat lines))"

definition sampled_sizes :: "document \<Rightarrow> real list" where
  "sampled_sizes doc = concat (map (\<lambda>pg. concat (map block_sizes (page_blocks pg))) (take 2 doc))"

definition estimate_body_size :: "(real list \<Rightarrow> real list) \<Rightarrow> document \<Rightarrow> real" where
  "estimate_body_size iter_order doc =
     (let font_sizes = iter_order (sampled_sizes doc)
      in if font_sizes = [] then 12 else most_common1 (map py_round1 font_sizes))"

text \<open>\<open>get_level\<close> and the heading test of one block.\<close>

definition get_level :: "real \<Rightarrow> real \<Rightarrow> string \<Rightarrow> string" where
  "get_level body_size font_size block_text =
     (if body_size + 2 \<le> font_size then ''H1''
      else if body_size + 1 \<le> font_size then ''H2''
      else if numbered block_text \<or> py_isupper block_text then ''H2''
      else ''H3'')"

definition is_heading :: "real \<Rightarrow> string \<Rightarrow> real \<Rightarrow> bool \<Rightarrow> pyfloat \<Rightarrow> bool" where
  "is_heading body_size block_text max_size is_bold min_indent =
     ((body_size + 0.5 \<le> max_size \<and> length block_text < 90)
      \<or> (is_bold \<and> body_size \<le> max_size \<and> length block_text < 70)
      \<or> (py_isupper block_text \<and> length block_text < 50)
      \<or> numbered block_text
      \<or> (fl_less min_indent 50 \<and> body_size \<le> max_size \<and> length block_text < 80))"

text \<open>
  One text block of the heading scan: the filters in the order of the source, then the
  heading test.  The bullet U+2022 of the first \<open>startswith\<close> is no code point below 256.
\<close>

definition heading_of_block :: "real \<Rightarrow> nat \<Rightarrow> real \<Rightarrow> span list list \<Rightarrow> heading option" where
  "heading_of_block body_size page_num height lines =
     (let st = scan_block lines; block_text = py_strip (bs_text st)
      in if block_text = [] \<or> length block_text < 3 \<or> 150 < length block_text then None
         else if starts_with ''-'' block_text \<or> starts_with ''*'' block_text then None
         else if py_lower block_text
                 \<in> set [''introduction'', ''contents'', ''table of contents'', ''index'']
              then None
         else if length (filter py_isalpha block_text) < 2 then None
         else if 80 < length block_text
                 \<and> list_ex (\<lambda>phrase. is_substring phrase (py_lower block_text))
                      [''comprehensive guide'', ''ultimate guide'', ''complete guide'',
                       ''journey through'', ''travel companion'']
              then None
         else if fl_less (bs_min_y st) 30 \<or> height - 40 < bs_max_y st then None
         else if is_heading body_size block_text (bs_max_size st) (bs_is_bold st)
                   (bs_min_indent st)
              then Some \<lparr>h_title = block_text, h_page_number = int page_num + 1,
                         h_font_size = bs_max_size st, h_bold = bs_is_bold st,
                         h_level = get_level body_size (bs_max_size st) block_text,
                         h_indent = bs_min_indent st\<rparr>
              else None)"

text \<open>
  The normalised title that decides whether a heading was seen before: a leading
  numbering \<open>^\s*[\dA-Za-z]+[\.:\)]\s+\<close> is removed, the rest is stripped, lowercased
  and its whitespace runs become one space.
\<close>

definition is_ascii_alnum :: "char \<Rightarrow> bool" where
  "is_ascii_alnum c = (let n = (of_char c :: nat) in
     (48 \<le> n \<and> n \<le> 57) \<or> (65 \<le> n \<and> n \<le> 90) \<or> (97 \<le> n \<and> n \<le> 122))"

definition strip_numbering :: "string \<Rightarrow> string" where
  "strip_numbering t =
     (let u = dropWhile py_isspace t;
          r = dropWhile is_ascii_alnum u
      in if takeWhile is_ascii_alnum u \<noteq> []
         then (case r of
                 c # w # rest \<Rightarrow>
                   if (c = CHR ''.'' \<or> c = CHR '':'' \<or> c = CHR '')'') \<and> py_isspace w
                   then dropWhile py_isspace (w # rest) else t
               | _ \<Rightarrow> t)
         else t)"

definition norm_title :: "string \<Rightarrow> string" where
  "norm_title block_text =
     squeeze py_isspace False (py_lower (py_strip (strip_numbering block_text)))"

fun dedup_headings :: "string list \<Rightarrow> heading list \<Rightarrow> heading list" where
  "dedup_headings seen_norm_titles [] = []"
| "dedup_headings seen_norm_titles (h # hs) =
     (if norm_title (h_title h) \<in> set seen_norm_titles
      then dedup_headings seen_norm_titles hs
      else h # dedup_headings (norm_title (h_title h) # seen_norm_titles) hs)"

definition page_headings :: "real \<Rightarrow> nat \<times> page \<Rightarrow> heading list" where
  "page_headings body_size np =
     (case np of (page_num, pg) \<Rightarrow>
        List.map_filter
          (\<lambda>b. case b of
                  Image_block \<Rightarrow> None
                | Text_block lines \<Rightarrow> heading_of_block body_size page_num (page_height pg) lines)
          (page_blocks pg))"

text \<open>\<open>extract_outline\<close> on an opened document; \<open>doc[0]\<close> raises on a document without pages.\<close>

definition extract_outline :: "(real list \<Rightarrow> real list) \<Rightarrow> document \<Rightarrow> py_error + outline" where
  "extract_outline iter_order doc =
     (case doc of
        [] \<Rightarrow> Inl IndexError
      | first_page # _ \<Rightarrow>
          (let title = select_title (List.map_filter title_candidate_of (page_blocks first_page));
               body_size = estimate_body_size iter_order doc;
               found = concat (map (page_headings body_size) (enumerate 0 (take 10 doc)))
           in Inr \<lparr>o_title = title, o_headings = dedup_headings [] found\<rparr>))"

text \<open>
  From the words of the specification, for comparison with \<open>estimate_body_size\<close>: the
  most frequent rounded size over all sampled spans, 12 when there is none.
\<close>

definition mode_of_samples :: "document \<Rightarrow> real" where
  "mode_of_samples doc =
     (if sampled_sizes doc = [] then 12 else most_common1 (map py_round1 (sampled_sizes doc)))"

section \<open>Heading extraction of the outline tool (1a/main.py)\<close>

text \<open>
  A language pack of \<open>MULTILINGUAL_PATTERNS\<close>; \<open>multilingual_patterns\<close> is the pack of
  the detected language, or \<open>None\<close>.  \<open>_extract_headings\<close> starts with the form test
  on the text of the first three pages; the page scan and the filter that follow it
  (\<open>_extract_headings_from_page\<close>, \<open>_filter_headings\<close>) are the parameter
  \<open>scan_pages\<close>.
\<close>

record language_pack =
  form_patterns :: "string list"
  tech_headings :: "string list"
  business_headings :: "string list"

record outline_entry =
  oe_level :: string
  oe_text :: string
  oe_page :: int

text \<open>A page scan for worked examples: one entry per page.\<close>

definition one_entry_per_page :: "document \<Rightarrow> string \<Rightarrow> outline_entry list" where
  "one_entry_per_page doc doc_text_lower =
     map (\<lambda>np. \<lparr>oe_level = ''H1'', oe_text = page_text (snd np), oe_page = int (fst np)\<rparr>)
       (enumerate 0 doc)"

definition extract_headings ::
  "language_pack option \<Rightarrow> (document \<Rightarrow> string \<Rightarrow> outline_entry list) \<Rightarrow> document
     \<Rightarrow> outline_entry list" where
  "extract_headings multilingual_patterns scan_pages doc =
     (let doc_text = concat (map page_text (take 3 doc));
          doc_text_lower = py_lower doc_text
      in if is_substring ''application form'' doc_text_lower
            \<or> is_substring ''government servant'' doc_text_lower
         then []
         else if (case multilingual_patterns of
                    None \<Rightarrow> False
                  | Some pack \<Rightarrow>
                      list_ex (\<lambda>pattern. is_substring pattern doc_text_lower)
                        (form_patterns pack))
              then []
         else scan_pages doc doc_text_lower)"

(*THEOREMS*)
section \<open>Properties of the float model\<close>

lemma normalise_down:
  assumes "2 ^ 52 \<le> M" and "M < 2 ^ 53" and "1 / 2 ^ 1074 < 2 * U"
  shows "normalise (k + f) (M / 2 ^ k) (U * 2 ^ k) = (M, U)"
proof (induction k)
  case 0
  from assms(1,2) show ?case by (cases f) simp_all
next
  case (Suc k)
  have p: "(1::real) \<le> 2 ^ k" by simp
  have "M / 2 ^ Suc k \<le> M / 2" using assms(1) p
    by (simp add: field_simps)
  with assms(2) have m: "M / 2 ^ Suc k < 2 ^ 52" by simp
  have "2 * U \<le> U * 2 ^ Suc k" using p assms(3)
    by (simp add: field_simps)
  with assms(3) have u: "1 / 2 ^ 1074 < U * 2 ^ Suc k" by linarith
  have "normalise (Suc k + f) (M / 2 ^ Suc k) (U * 2 ^ Suc k)
      = normalise (k + f) (2 * (M / 2 ^ Suc k)) (U * 2 ^ Suc k / 2)"
    using m u by simp
  also have "\<dots> = normalise (k + f) (M / 2 ^ k) (U * 2 ^ k)" by simp
  finally show ?case using Suc.IH by simp
qed

lemma round_double_small:
  assumes "0 < x" and "2 ^ 52 \<le> x * 2 ^ k" and "x * 2 ^ k < 2 ^ 53" and "k \<le> 1074"
  shows "round_double x = of_int (round_half_even (x * 2 ^ k)) / 2 ^ k"
proof -
  have "(2::real) ^ k \<le> 2 ^ 1074" using assms(4) by (intro power_increasing) simp_all
  then have "(2::real) ^ k < 2 * 2 ^ 1074" by simp
  then have u: "1 / 2 ^ 1074 < 2 * (1 / (2::real) ^ k)"
    by (simp add: field_simps)
  from assms(4) have "k + (2200 - k) = 2200" by simp
  then have "normalise 2200 \<bar>x\<bar> 1
      = normalise (k + (2200 - k)) (x * 2 ^ k / 2 ^ k) (1 / 2 ^ k * 2 ^ k)"
    using assms(1) by simp
  also have "\<dots> = (x * 2 ^ k, 1 / 2 ^ k)"
    using assms(2,3) u by (rule normalise_down)
  finally show ?thesis using assms(1) by (simp add: round_double_def)
qed

lemma rd_eval:
  assumes "0 < x" and "2 ^ 52 \<le> x * 2 ^ k" and "x * 2 ^ k < 2 ^ 53" and "k \<le> 1074"
    and "of_int (round_half_even (x * 2 ^ k)) / 2 ^ k = r"
  shows "round_double x = r"
  using round_double_small [OF assms(1-4)] assms(5) by simp






lemma double_08: "round_double (8 / 10) = 3602879701896397 / 4503599627370496"
  by (rule rd_eval [where k = 53]) (simp_all add: round_half_even_def Let_def)

lemma double_06: "round_double (6 / 10) = 5404319552844595 / 9007199254740992"
  by (rule rd_eval [where k = 53]) (simp_all add: round_half_even_def Let_def)




lemma double_1: "round_double (1) = 1"
  by (rule rd_eval [where k = 52]) (simp_all add: round_half_even_def Let_def)

lemma double_1_1: "round_double (1 / 1) = 1"
  by (rule rd_eval [where k = 52]) (simp_all add: round_half_even_def Let_def)



lemma quality_value_1000:
  "quality_value 1 1000 1 = 3152519739159347 / 4503599627370496"
proof -
  have c04: "round_double (4 / 10) = 3602879701896397 / 9007199254740992"
    by (rule rd_eval [where k = 54]) (simp_all add: round_half_even_def Let_def)
  have c01: "round_double (1 / 10) = 3602879701896397 / 36028797018963968"
    by (rule rd_eval [where k = 56]) (simp_all add: round_half_even_def Let_def)
  have a: "round_double (1 * (1 / 2)) = 1 / 2"
    by (rule rd_eval [where k = 53]) (simp_all add: round_half_even_def Let_def)
  have ratio: "round_double (real_of_int (min 1000 4000) / 4000) = 1 / 4"
    by (rule rd_eval [where k = 54]) (simp_all add: round_half_even_def Let_def)
  have b: "round_double ((1 / 4) * (3602879701896397 / 9007199254740992)) = 3602879701896397 / 36028797018963968"
    by (rule rd_eval [where k = 56]) (simp_all add: round_half_even_def Let_def)
  have s: "round_double ((1 / 2) + (3602879701896397 / 36028797018963968)) = 5404319552844595 / 9007199254740992"
    by (rule rd_eval [where k = 53]) (simp_all add: round_half_even_def Let_def)
  have c: "round_double (1 * (3602879701896397 / 36028797018963968)) = 3602879701896397 / 36028797018963968"
    by (rule rd_eval [where k = 56]) (simp_all add: round_half_even_def Let_def)
  have q: "round_double ((5404319552844595 / 9007199254740992) + (3602879701896397 / 36028797018963968)) = 3152519739159347 / 4503599627370496"
    by (rule rd_eval [where k = 53]) (simp_all add: round_half_even_def Let_def)
  show ?thesis
    unfolding quality_value_def by (simp only: c04 c01 a ratio b s c q)
qed

lemma quality_value_2000:
  "quality_value (3602879701896397 / 4503599627370496) 2000 1 = 6305039478318695 / 9007199254740992"
proof -
  have c04: "round_double (4 / 10) = 3602879701896397 / 9007199254740992"
    by (rule rd_eval [where k = 54]) (simp_all add: round_half_even_def Let_def)
  have c01: "round_double (1 / 10) = 3602879701896397 / 36028797018963968"
    by (rule rd_eval [where k = 56]) (simp_all add: round_half_even_def Let_def)
  have a: "round_double ((3602879701896397 / 4503599627370496) * (1 / 2)) = 3602879701896397 / 9007199254740992"
    by (rule rd_eval [where k = 54]) (simp_all add: round_half_even_def Let_def)
  have ratio: "round_double (real_of_int (min 2000 4000) / 4000) = 1 / 2"
    by (rule rd_eval [where k = 53]) (simp_all add: round_half_even_def Let_def)
  have b: "round_double ((1 / 2) * (3602879701896397 / 9007199254740992)) = 3602879701896397 / 18014398509481984"
    by (rule rd_eval [where k = 55]) (simp_all add: round_half_even_def Let_def)
  have s: "round_double ((3602879701896397 / 9007199254740992) + (3602879701896397 / 18014398509481984)) = 1351079888211149 / 2251799813685248"
    by (rule rd_eval [where k = 53]) (simp_all add: round_half_even_def Let_def)
  have c: "round_double (1 * (3602879701896397 / 36028797018963968)) = 3602879701896397 / 36028797018963968"
    by (rule rd_eval [where k = 56]) (simp_all add: round_half_even_def Let_def)
  have q: "round_double ((1351079888211149 / 2251799813685248) + (3602879701896397 / 36028797018963968)) = 6305039478318695 / 9007199254740992"
    by (rule rd_eval [where k = 53]) (simp_all add: round_half_even_def Let_def)
  show ?thesis
    unfolding quality_value_def by (simp only: c04 c01 a ratio b s c q)
qed

section \<open>Properties of deduplication\<close>



lemma float_of_int_1: "float_of_int 1 = Inr 1"
  by (simp add: float_of_int_def double_1)

lemma section_quality_page_1:
  assumes "sec_page_number s = 1"
  shows "section_quality s
       = Inr (quality_value (level_score (sec_level s)) (int (length (sec_text s))) 1)"
  using assms by (simp add: section_quality_def float_of_int_1 double_1)

lemma level_scores:
  "level_score (Some ''H1'') = 1" "level_score (Some ''H2'') = round_double (8 / 10)"
  "level_score (Some ''H3'') = round_double (6 / 10)" "level_score None = round_double (6 / 10)"
  by (simp_all add: level_score_def)

text \<open>
  The rounding of the quality decides between sections that the exact formula would
  tie: a first-level section of 1000 characters and a second-level section of 2000
  characters, both on page 1, have the exact value 7/10, and the floats differ.
\<close>

lemma section_quality_rounding:
  "section_quality (new_section ''One'' (replicate 1000 (CHR ''a'')) 1 (Some ''H1''))
     = Inr (3152519739159347 / 4503599627370496)"
  "section_quality (new_section ''Two'' (replicate 2000 (CHR ''a'')) 1 (Some ''H2''))
     = Inr (6305039478318695 / 9007199254740992)"
  "(3152519739159347 / 4503599627370496 :: real) < 6305039478318695 / 9007199254740992"
proof -
  have a: "sec_page_number (new_section ''One'' (replicate 1000 (CHR ''a'')) 1 (Some ''H1'')) = 1"
    and b: "sec_page_number (new_section ''Two'' (replicate 2000 (CHR ''a'')) 1 (Some ''H2'')) = 1"
    by (simp_all add: new_section_def)
  show "section_quality (new_section ''One'' (replicate 1000 (CHR ''a'')) 1 (Some ''H1''))
     = Inr (3152519739159347 / 4503599627370496)"
    unfolding section_quality_page_1 [OF a]
    by (simp add: new_section_def level_scores quality_value_1000)
  show "section_quality (new_section ''Two'' (replicate 2000 (CHR ''a'')) 1 (Some ''H2''))
     = Inr (6305039478318695 / 9007199254740992)"
    unfolding section_quality_page_1 [OF b]
    by (simp only: new_section_def sec.simps level_scores double_08 length_replicate
          of_nat_numeral quality_value_2000)
  show "(3152519739159347 / 4503599627370496 :: real) < 6305039478318695 / 9007199254740992"
    by simp
qed







section \<open>Properties of section extraction\<close>

lemma length_py_strip: "length (py_strip s) \<le> length s"
proof -
  have "length (dropWhile py_isspace (rev (dropWhile py_isspace s)))
      \<le> length (rev (dropWhile py_isspace s))"
    by (rule length_dropWhile_le)
  also have "\<dots> \<le> length s" by (simp add: length_dropWhile_le)
  finally show ?thesis by (simp add: py_strip_def)
qed

lemma finish_section_cap: "length (sec_text (finish_section cl h t)) \<le> 5000"
proof -
  have "length (py_strip (if 5000 < length (cl t) then take 5000 (cl t) else cl t))
      \<le> length (if 5000 < length (cl t) then take 5000 (cl t) else cl t)"
    by (rule length_py_strip)
  also have "\<dots> \<le> 5000" by simp
  finally show ?thesis by (simp add: finish_section_def new_section_def Let_def)
qed

lemma section_of_heading_finish:
  assumes "section_of_heading ic cl doc h nx = Inr (Some s)"
  shows "\<exists>t. s = finish_section cl h t"
  using assms unfolding section_of_heading_def Let_def
  by (simp split: sum.splits bool.splits if_splits) blast+

lemma sections_loop_cap:
  "sections_loop ic cl doc hs = Inr ss \<Longrightarrow> s \<in> set ss \<Longrightarrow> length (sec_text s) \<le> 5000"
proof (induction hs arbitrary: ss)
  case Nil
  then show ?case by simp
next
  case (Cons h hs)
  from Cons.prems(1) obtain r ss' where
    r: "section_of_heading ic cl doc h (case hs of [] \<Rightarrow> None | h' # _ \<Rightarrow> Some h') = Inr r"
    and ss': "sections_loop ic cl doc hs = Inr ss'"
    and ss: "ss = (case r of None \<Rightarrow> [] | Some s \<Rightarrow> [s]) @ ss'"
    by (auto split: sum.splits)
  show ?case
  proof (cases "s \<in> set ss'")
    case True
    then show ?thesis using Cons.IH [OF ss'] by simp
  next
    case False
    with Cons.prems(2) ss have "r = Some s" by (auto split: option.splits)
    with r section_of_heading_finish obtain t where "s = finish_section cl h t" by blast
    then show ?thesis by (simp add: finish_section_cap)
  qed
qed

text \<open>
  C3 (as amended).  Every section built from a heading has a text of at most 5000
  characters.  The single section of the fallback (no heading) is the text of the first
  three pages as it is: that branch has no cut.
\<close>

theorem extract_sections_text_cap:
  assumes "extract_sections ic cl doc ol = Inr ss" and "s \<in> set ss"
  shows "(o_headings ol \<noteq> [] \<longrightarrow> length (sec_text s) \<le> 5000)
     \<and> (o_headings ol = [] \<longrightarrow> sec_text s = concat (map page_text (take 3 doc)))"
proof (cases "o_headings ol = []")
  case True
  with assms show ?thesis by (auto simp: extract_sections_def new_section_def)
next
  case False
  with assms(1) have "sections_loop ic cl doc
      (sort_key (\<lambda>h. (h_page_number h, - h_font_size h)) (o_headings ol)) = Inr ss"
    by (simp add: extract_sections_def)
  from sections_loop_cap [OF this assms(2)] False show ?thesis by simp
qed

theorem extract_sections_text_cap_witness:
  "extract_sections every_title_clean nothing_cleaned
      [\<lparr>page_text = ''Overview  first page body. '', page_height = 800, page_blocks = []\<rparr>,
       \<lparr>page_text = ''second page body.  '', page_height = 800, page_blocks = []\<rparr>]
      \<lparr>o_title = ''Report'',
       o_headings = [\<lparr>h_title = ''Overview'', h_page_number = 1, h_font_size = 18,
                      h_bold = True, h_level = ''H1'', h_indent = Fin 72\<rparr>]\<rparr>
    = Inr [new_section ''Overview'' ''Overview  first page body. second page body.'' 1
             (Some ''H1'')]
   \<and> length (sec_text (new_section ''Overview''
        ''Overview  first page body. second page body.'' 1 (Some ''H1''))) \<le> 5000"
proof -
  have e: "extract_sections every_title_clean nothing_cleaned
      [\<lparr>page_text = ''Overview  first page body. '', page_height = 800, page_blocks = []\<rparr>,
       \<lparr>page_text = ''second page body.  '', page_height = 800, page_blocks = []\<rparr>]
      \<lparr>o_title = ''Report'',
       o_headings = [\<lparr>h_title = ''Overview'', h_page_number = 1, h_font_size = 18,
                      h_bold = True, h_level = ''H1'', h_indent = Fin 72\<rparr>]\<rparr>
    = Inr [new_section ''Overview'' ''Overview  first page body. second page body.'' 1
             (Some ''H1'')]"
    by code_simp
  from extract_sections_text_cap [OF e] e show ?thesis by simp
qed

theorem extract_sections_text_cap_counterexample:
  "extract_sections every_title_clean nothing_cleaned
      [\<lparr>page_text = replicate 5001 (CHR ''a''), page_height = 800, page_blocks = []\<rparr>]
      \<lparr>o_title = ''Report'', o_headings = []\<rparr>
    = Inr [new_section ''Report'' (replicate 5001 (CHR ''a'')) 1 None]
   \<and> length (sec_text (new_section ''Report'' (replicate 5001 (CHR ''a'')) 1 None)) = 5001"
  by (simp add: extract_sections_def new_section_def)



section \<open>Properties of snippet selection\<close>

lemma split_ws_word:
  "\<forall>c \<in> set x. \<not> py_isspace c \<Longrightarrow> split_ws w (x @ s) = split_ws (w @ x) s"
  by (induction x arbitrary: w) auto

lemma split_ws_tokens:
  "\<forall>c \<in> set w. \<not> py_isspace c \<Longrightarrow> t \<in> set (split_ws w s) \<Longrightarrow>
     t \<noteq> [] \<and> (\<forall>c \<in> set t. \<not> py_isspace c)"
proof (induction s arbitrary: w)
  case Nil
  then show ?case by (cases "w = []") simp_all
next
  case (Cons c cs)
  show ?case
  proof (cases "py_isspace c")
    case False
    with Cons.prems have "t \<in> set (split_ws (w @ [c]) cs)"
      and "\<forall>d \<in> set (w @ [c]). \<not> py_isspace d" by simp_all
    then show ?thesis using Cons.IH [of "w @ [c]"] by blast
  next
    case True
    show ?thesis
    proof (cases "t \<in> set (split_ws [] cs)")
      case True
      then show ?thesis using Cons.IH [of "[]"] by simp
    next
      case False
      with Cons.prems(2) \<open>py_isspace c\<close> have "t = w \<and> w \<noteq> []"
        by (cases "w = []") simp_all
      with Cons.prems(1) show ?thesis by simp
    qed
  qed
qed

lemma py_split_tokens:
  "t \<in> set (py_split s) \<Longrightarrow> t \<noteq> [] \<and> (\<forall>c \<in> set t. \<not> py_isspace c)"
  unfolding py_split_def by (rule split_ws_tokens) simp_all

lemma isspace_space: "py_isspace (CHR '' '')"
  by (simp add: py_isspace_def)

lemma py_split_join:
  "\<forall>t \<in> set ts. t \<noteq> [] \<and> (\<forall>c \<in> set t. \<not> py_isspace c) \<Longrightarrow>
     py_split (py_join '' '' ts) = ts"
proof (induction "'' ''" ts rule: py_join.induct)
  case 1
  then show ?case by (simp add: py_split_def)
next
  case (2 x)
  then have "split_ws [] (x @ []) = split_ws ([] @ x) []"
    by (intro split_ws_word) simp
  with 2 show ?case by (simp add: py_split_def)
next
  case (3 x y ys)
  then have x: "x \<noteq> []" "\<forall>c \<in> set x. \<not> py_isspace c" by simp_all
  have "split_ws [] (x @ '' '' @ py_join '' '' (y # ys))
      = split_ws ([] @ x) ('' '' @ py_join '' '' (y # ys))"
    using x(2) by (rule split_ws_word)
  also have "\<dots> = x # split_ws [] (py_join '' '' (y # ys))"
    using x(1) by (simp add: isspace_space)
  also have "split_ws [] (py_join '' '' (y # ys)) = y # ys"
    using 3 by (simp add: py_split_def)
  finally show ?case by (simp add: py_split_def)
qed

lemma split_ws_count:
  "length (split_ws w s) \<le> (if w = [] then (length s + 1) div 2 else 1 + length s div 2)"
proof (induction s arbitrary: w)
  case Nil
  show ?case by simp
next
  case (Cons c cs)
  have e: "length (split_ws [] cs) \<le> (length cs + 1) div 2"
    using Cons.IH [of "[]"] by simp
  have n: "length (split_ws (w @ [c]) cs) \<le> 1 + length cs div 2"
    using Cons.IH [of "w @ [c]"] by simp
  show ?case
  proof (cases "py_isspace c")
    case True
    with e show ?thesis by (cases "w = []") simp_all
  next
    case False
    with n show ?thesis by (cases "w = []") simp_all
  qed
qed

lemma py_split_count: "length (py_split s) \<le> (length s + 1) div 2"
  using split_ws_count [of "[]" s] by (simp add: py_split_def)

lemma py_prefix_tokens: "set (py_prefix xs m) \<subseteq> set xs"
  by (auto simp: py_prefix_def dest: in_set_takeD)

lemma py_prefix_length: "0 \<le> m \<Longrightarrow> length (py_prefix xs m) \<le> nat m"
  by (simp add: py_prefix_def)

lemma select_snippet_main:
  assumes "sentence_split (normalize_text t) \<noteq> []" and "0 \<le> m"
  shows "length (py_split (select_snippet t q m)) \<le> nat m"
proof -
  from assms(1) obtain snippet where
    s: "select_snippet t q m = py_join '' ''
          (if m < int (length (py_split snippet)) then py_prefix (py_split snippet) m
           else py_split snippet)"
    by (simp add: select_snippet_def Let_def)
  let ?ts = "if m < int (length (py_split snippet)) then py_prefix (py_split snippet) m
           else py_split snippet"
  have sub: "set ?ts \<subseteq> set (py_split snippet)"
    by (cases "m < int (length (py_split snippet))") (simp_all add: py_prefix_tokens)
  then have "\<forall>t \<in> set ?ts. t \<noteq> [] \<and> (\<forall>c \<in> set t. \<not> py_isspace c)"
    using py_split_tokens by blast
  then have "py_split (py_join '' '' ?ts) = ?ts" by (rule py_split_join)
  moreover have "length ?ts \<le> nat m"
    using assms(2) py_prefix_length [of m "py_split snippet"] by auto
  ultimately show ?thesis by (simp add: s)
qed

lemma select_snippet_fallback:
  assumes "sentence_split (normalize_text t) = []"
  shows "select_snippet t q m = take 600 t"
  using assms by (simp add: select_snippet_def)

text \<open>
  C6 (as amended).  When sentences parse, the snippet has at most 150 whitespace-delimited
  tokens.  When none parses, the snippet is the first 600 characters of the input as they
  are, which hold at most 300 tokens.
\<close>

theorem select_snippet_token_bound:
  "(sentence_split (normalize_text t) \<noteq> [] \<longrightarrow>
      length (py_split (select_snippet t q 150)) \<le> 150)
   \<and> (sentence_split (normalize_text t) = [] \<longrightarrow>
        select_snippet t q 150 = take 600 t
        \<and> length (py_split (select_snippet t q 150)) \<le> 300)"
proof -
  have "length (py_split (take 600 t)) \<le> 300"
    using py_split_count [of "take 600 t"] by simp
  then show ?thesis
    using select_snippet_main [of t 150 q] by (simp add: select_snippet_fallback)
qed

theorem select_snippet_token_bound_witness:
  "sentence_split (normalize_text ''Plan a trip. Go!'') \<noteq> []
   \<and> length (py_split (select_snippet ''Plan a trip. Go!'' [''trip''] 150)) \<le> 150
   \<and> sentence_split (normalize_text '' '') = []
   \<and> select_snippet '' '' [''trip''] 150 = take 600 '' ''
   \<and> length (py_split (select_snippet '' '' [''trip''] 150)) \<le> 300"
proof -
  have h1: "sentence_split (normalize_text ''Plan a trip. Go!'') \<noteq> []" by code_simp
  have h2: "sentence_split (normalize_text '' '') = []" by code_simp
  show ?thesis
    using select_snippet_token_bound [of "''Plan a trip. Go!''" "[''trip'']"]
      select_snippet_token_bound [of "'' ''" "[''trip'']"] h1 h2
    by blast
qed

lemma set_dehyphenate: "set (dehyphenate s) \<subseteq> set s"
  by (induction s rule: dehyphenate.induct) auto

lemma squeeze_class:
  "\<forall>c \<in> set s. P c \<or> S c \<Longrightarrow> S (CHR '' '') \<Longrightarrow> \<forall>c \<in> set (squeeze P r s). S c"
  by (induction P r s rule: squeeze.induct) auto

lemma squeeze_keeps_class:
  "\<forall>c \<in> set s. S c \<Longrightarrow> S (CHR '' '') \<Longrightarrow> \<forall>c \<in> set (squeeze P r s). S c"
  by (induction P r s rule: squeeze.induct) auto

lemma map_class:
  "\<forall>c \<in> set s. S c \<Longrightarrow> \<forall>c. S c \<longrightarrow> S (f c) \<Longrightarrow> \<forall>c \<in> set (map f s). S c"
  by simp

lemma py_strip_blank:
  assumes "\<forall>c \<in> set s. py_isspace c"
  shows "py_strip s = []"
proof -
  from assms have d: "dropWhile py_isspace s = []" by (simp add: dropWhile_eq_Nil_conv)
  show ?thesis unfolding py_strip_def d by simp
qed

lemma normalize_text_blank:
  assumes "\<forall>c \<in> set t. is_bullet c \<or> py_isspace c"
  shows "normalize_text t = []"
proof (cases "t = []")
  case True
  then show ?thesis by (simp add: normalize_text_def)
next
  case False
  let ?a = "dehyphenate t"
  let ?b = "map (\<lambda>c. if c = CHR 0x0D then CHR '' '' else c) ?a"
  let ?c = "map (\<lambda>c. if c = CHR 0x0A then CHR '' '' else c) ?b"
  let ?d = "squeeze is_bullet False ?c"
  let ?e = "squeeze (\<lambda>c. c = CHR 0x09) False ?d"
  let ?f = "squeeze py_isspace False ?e"
  have a: "\<forall>c \<in> set ?a. is_bullet c \<or> py_isspace c"
    using assms set_dehyphenate [of t] by (meson subsetD)
  have b: "\<forall>c \<in> set ?b. is_bullet c \<or> py_isspace c"
    by (rule map_class [OF a]) (simp add: isspace_space)
  have c: "\<forall>c \<in> set ?c. is_bullet c \<or> py_isspace c"
    by (rule map_class [OF b]) (simp add: isspace_space)
  have d: "\<forall>c \<in> set ?d. py_isspace c"
    by (rule squeeze_class [where P = is_bullet and S = py_isspace, OF c isspace_space])
  have e: "\<forall>c \<in> set ?e. py_isspace c"
    by (rule squeeze_keeps_class [where S = py_isspace, OF d isspace_space])
  have "\<forall>c \<in> set ?f. py_isspace c"
    by (rule squeeze_keeps_class [where S = py_isspace, OF e isspace_space])
  then have "py_strip ?f = []" by (rule py_strip_blank)
  with False show ?thesis by (simp add: normalize_text_def Let_def py_lower_def)
qed

lemma split_bullets:
  "length (py_split (concat (replicate n [CHR 0xB7, CHR '' '']))) = n"
proof -
  have "split_ws [] (concat (replicate n [CHR 0xB7, CHR '' ''])) = replicate n [CHR 0xB7]"
    by (induction n) (simp_all add: py_isspace_def)
  then show ?thesis by (simp add: py_split_def)
qed

lemma bullets_blank:
  "\<forall>c \<in> set (concat (replicate n [CHR 0xB7, CHR '' ''])). is_bullet c \<or> py_isspace c"
  by (auto simp: is_bullet_def py_isspace_def)

lemma length_bullets: "length (concat (replicate n [CHR 0xB7, CHR '' ''])) = 2 * n"
  by (induction n) simp_all

lemma snippet_of_bullets:
  assumes "2 * n \<le> 600"
  shows "select_snippet (concat (replicate n [CHR 0xB7, CHR '' ''])) q m
      = concat (replicate n [CHR 0xB7, CHR '' ''])"
proof -
  have "normalize_text (concat (replicate n [CHR 0xB7, CHR '' ''])) = []"
    using bullets_blank by (rule normalize_text_blank)
  then show ?thesis
    using assms by (simp add: select_snippet_def sentence_split_def length_bullets)
qed

theorem select_snippet_token_bound_counterexample:
  "select_snippet (concat (replicate 300 [CHR 0xB7, CHR '' ''])) [] 150
     = concat (replicate 300 [CHR 0xB7, CHR '' ''])
   \<and> length (py_split (select_snippet (concat (replicate 300 [CHR 0xB7, CHR '' ''])) [] 150))
     = 300"
proof -
  have le: "2 * (300::nat) \<le> 600" by simp
  have s: "select_snippet (concat (replicate 300 [CHR 0xB7, CHR '' ''])) [] 150
     = concat (replicate 300 [CHR 0xB7, CHR '' ''])"
    by (rule snippet_of_bullets [OF le])
  have n: "length (py_split (concat (replicate 300 [CHR 0xB7, CHR '' '']))) = 300"
    by (rule split_bullets)
  show ?thesis
    by (rule conjI, rule s, subst s, rule n)
qed

section \<open>Properties of ranking\<close>
















text \<open>
  C9.  With a cross-encoder at hand, the section that \<open>rank_sections\<close> returns carries its
  score and its snippet and no \<open>_mmr\<close>, but it still carries \<open>_ce\<close>: only \<open>_mmr\<close> is
  deleted before the return.
\<close>

theorem rank_sections_keeps_ce:
  "rank_sections ((!) [1]) (Some (fixed_reranker [9 / 10])) (3 / 10) (constant_similarity 0)
     [new_section ''Things To Do'' ''Visit the old town.'' 1 (Some ''H1'')]
     ''Travel Planner'' ''Plan a trip'' 5
   = Inr [\<lparr>sec_title = ''Things To Do'', sec_text = ''Visit the old town.'',
           sec_page_number = 1, sec_level = Some ''H1'', sec_document = None,
           sec_score = Some 1, sec_snippet = Some ''visit the old town.'',
           sec_mmr = None, sec_ce = Some (9 / 10)\<rparr>]"
  by code_simp

section \<open>Properties of outline extraction\<close>

lemma heading_of_block_rule:
  assumes "heading_of_block B pn ht lines = Some h"
  shows "B \<le> h_font_size h \<or> (py_isupper (h_title h) \<and> length (h_title h) < 50)
     \<or> numbered (h_title h)"
proof -
  let ?st = "scan_block lines"
  let ?t = "py_strip (bs_text ?st)"
  from assms have ih: "is_heading B ?t (bs_max_size ?st) (bs_is_bold ?st) (bs_min_indent ?st)"
    and t: "h_title h = ?t" and f: "h_font_size h = bs_max_size ?st"
    unfolding heading_of_block_def Let_def by (auto split: if_splits)
  from ih show ?thesis unfolding t f is_heading_def by auto
qed

lemma set_dedup_headings: "set (dedup_headings seen hs) \<subseteq> set hs"
  by (induction hs arbitrary: seen) auto

lemma page_headings_rule:
  assumes "h \<in> set (page_headings B np)"
  shows "B \<le> h_font_size h \<or> (py_isupper (h_title h) \<and> length (h_title h) < 50)
     \<or> numbered (h_title h)"
proof -
  obtain pn pg where np: "np = (pn, pg)" by (cases np)
  from assms obtain b where
    "(case b of Image_block \<Rightarrow> None
      | Text_block lines \<Rightarrow> heading_of_block B pn (page_height pg) lines) = Some h"
    unfolding page_headings_def np by (auto simp: List.map_filter_def)
  then obtain lines where "heading_of_block B pn (page_height pg) lines = Some h"
    by (cases b) simp_all
  then show ?thesis by (rule heading_of_block_rule)
qed

text \<open>
  C4.  Every heading that \<open>extract_outline\<close> emits has a font size of at least the
  estimated body size, or an uppercase text shorter than 50 characters, or a text that
  starts with a numbering.
\<close>

theorem headings_not_below_body_size:
  assumes "extract_outline iter_order doc = Inr ol" and "h \<in> set (o_headings ol)"
  shows "estimate_body_size iter_order doc \<le> h_font_size h
     \<or> (py_isupper (h_title h) \<and> length (h_title h) < 50)
     \<or> numbered (h_title h)"
proof -
  let ?B = "estimate_body_size iter_order doc"
  let ?found = "concat (map (page_headings ?B) (enumerate 0 (take 10 doc)))"
  from assms(1) have "o_headings ol = dedup_headings [] ?found"
    unfolding extract_outline_def Let_def by (auto split: list.splits)
  with assms(2) have "h \<in> set (dedup_headings [] ?found)" by simp
  with set_dedup_headings [of "[]" ?found] have "h \<in> set ?found" by (rule_tac subsetD)
  then obtain np where "h \<in> set (page_headings ?B np)" by auto
  then show ?thesis by (rule page_headings_rule)
qed

theorem headings_not_below_body_size_witness:
  "extract_outline remdups
     [\<lparr>page_text = ''Overview of Results Body text runs here.'', page_height = 800,
       page_blocks =
         [Text_block [[\<lparr>span_text = ''Overview of Results'', span_size = 16, span_flags = 16,
                         span_bbox = (72, 100, 300, 120)\<rparr>]],
          Text_block [[\<lparr>span_text = ''Body text runs here.'', span_size = 12, span_flags = 0,
                         span_bbox = (72, 140, 500, 155)\<rparr>]]]\<rparr>]
   = Inr \<lparr>o_title = ''Overview of Results'',
          o_headings = [\<lparr>h_title = ''Overview of Results'', h_page_number = 1,
                          h_font_size = 16, h_bold = True, h_level = ''H3'',
                          h_indent = Fin 72\<rparr>]\<rparr>
   \<and> (estimate_body_size remdups
        [\<lparr>page_text = ''Overview of Results Body text runs here.'', page_height = 800,
          page_blocks =
            [Text_block [[\<lparr>span_text = ''Overview of Results'', span_size = 16,
                            span_flags = 16, span_bbox = (72, 100, 300, 120)\<rparr>]],
             Text_block [[\<lparr>span_text = ''Body text runs here.'', span_size = 12,
                            span_flags = 0, span_bbox = (72, 140, 500, 155)\<rparr>]]]\<rparr>]
        \<le> 16
      \<or> (py_isupper ''Overview of Results'' \<and> length ''Overview of Results'' < 50)
      \<or> numbered ''Overview of Results'')"
proof -
  let ?doc = "[\<lparr>page_text = ''Overview of Results Body text runs here.'', page_height = 800,
       page_blocks =
         [Text_block [[\<lparr>span_text = ''Overview of Results'', span_size = 16, span_flags = 16,
                         span_bbox = (72, 100, 300, 120)\<rparr>]],
          Text_block [[\<lparr>span_text = ''Body text runs here.'', span_size = 12, span_flags = 0,
                         span_bbox = (72, 140, 500, 155)\<rparr>]]]\<rparr>]"
  let ?h = "\<lparr>h_title = ''Overview of Results'', h_page_number = 1,
             h_font_size = 16, h_bold = True, h_level = ''H3'', h_indent = Fin 72\<rparr>"
  have e: "extract_outline remdups ?doc
      = Inr \<lparr>o_title = ''Overview of Results'', o_headings = [?h]\<rparr>"
    by code_simp
  have "estimate_body_size remdups ?doc \<le> h_font_size ?h
     \<or> (py_isupper (h_title ?h) \<and> length (h_title ?h) < 50)
     \<or> numbered (h_title ?h)"
    by (rule headings_not_below_body_size [OF e]) simp
  with e show ?thesis by simp
qed

end
